theory Spec2Isabelle
  imports Main "HOL-Library.Monad_Syntax"
begin

section \<open>Values exchanged over HTTP\<close>

text \<open>
  The route layer of the Product Store service (\<^verbatim>\<open>service/routes.py\<close>) is a set of
  Flask handlers. A handler reads the request (headers, query arguments, JSON body),
  calls the \<^verbatim>\<open>Product\<close> model and returns a body with a status code, or raises.
  Handlers are modelled as functions from the table of persisted products and the request
  to an outcome and the table afterwards; a raised exception is the \<open>Inl\<close> outcome.
\<close>

datatype json =
    JNull
  | JBool bool
  | JNum int
  | JStr string
  | JArr "json list"
  | JObj "(string \<times> json) list"

text \<open>
  \<^verbatim>\<open>abort(code, message)\<close> raises an HTTP exception; \<^verbatim>\<open>getattr\<close> raises
  \<^verbatim>\<open>AttributeError\<close>; a failed deserialization raises \<^verbatim>\<open>TypeError\<close>.
\<close>

datatype exn =
    HTTPException nat string
  | AttributeError string
  | TypeError

record request =
  headers :: "string \<rightharpoonup> string"
  args :: "string \<rightharpoonup> string"
  get_json :: json

record response =
  status :: nat
  body :: json
  resp_headers :: "(string \<times> string) list"

definition HTTP_200_OK :: nat where "HTTP_200_OK = 200"
definition HTTP_201_CREATED :: nat where "HTTP_201_CREATED = 201"
definition HTTP_204_NO_CONTENT :: nat where "HTTP_204_NO_CONTENT = 204"
definition HTTP_400_BAD_REQUEST :: nat where "HTTP_400_BAD_REQUEST = 400"
definition HTTP_404_NOT_FOUND :: nat where "HTTP_404_NOT_FOUND = 404"
definition HTTP_415_UNSUPPORTED_MEDIA_TYPE :: nat where "HTTP_415_UNSUPPORTED_MEDIA_TYPE = 415"

text \<open>A handler that returns \<^verbatim>\<open>body, code\<close> sets no header of its own.\<close>

definition reply :: "json \<Rightarrow> nat \<Rightarrow> response" where
  "reply b c = \<lparr>status = c, body = b, resp_headers = []\<rparr>"

text \<open>
  Python's truth test on the result of \<^verbatim>\<open>request.args.get(k)\<close>: \<^verbatim>\<open>None\<close> and the
  empty string are false, every other string is true.
\<close>

fun truthy :: "string option \<Rightarrow> bool" where
  "truthy None = False"
| "truthy (Some s) = (s \<noteq> [])"

section \<open>The Product model\<close>

text \<open>
  \<^verbatim>\<open>service/models.py\<close> (the classes \<^verbatim>\<open>Product\<close> and \<^verbatim>\<open>Category\<close>) is not part of the
  sources at hand; the routes only call it. What the model layer does is taken from the
  specification, and what the specification leaves open is a parameter:
  the names of the members of the enumeration \<^verbatim>\<open>Category\<close>, the names of the other
  attributes of that class object (\<^verbatim>\<open>__class__\<close>, \<^verbatim>\<open>__doc__\<close>, \<^verbatim>\<open>__members__\<close> and the
  like), the conversion of a JSON value to a decimal price and back, and the reading as a
  boolean of an \<^verbatim>\<open>available\<close> query string other than \<^verbatim>\<open>true\<close> and \<^verbatim>\<open>false\<close>.
\<close>

record 'd models =
  Category :: "string list"
  Category_attributes :: "string list"
  Decimal :: "json \<Rightarrow> 'd option"
  price_json :: "'d \<Rightarrow> json"
  other_words :: "string \<Rightarrow> bool"

text \<open>A category is represented by its name, which is also how it serializes.\<close>

record 'd product =
  pid :: "nat option"
  name :: string
  description :: "string option"
  price :: 'd
  available :: bool
  category :: string

type_synonym 'd store = "'d product list"

text \<open>
  \<^verbatim>\<open>getattr(Category, s)\<close> is Python's attribute lookup on the class object: it returns
  the member named \<open>s\<close>, or the attribute of that name when the class has one that is
  not a member, and raises \<^verbatim>\<open>AttributeError\<close> for every other name.
\<close>

datatype cat_value = Member string | Other string

definition getattr_Category :: "'d models \<Rightarrow> string \<Rightarrow> exn + cat_value" where
  "getattr_Category M s =
     (if s \<in> set (Category M) then Inr (Member s)
      else if s \<in> set (Category_attributes M) then Inr (Other s)
      else Inl (AttributeError s))"

text \<open>
  Modelled from the spec: the field checks of \<^verbatim>\<open>Product.deserialize\<close> are missing. A
  required text field is a JSON string, a boolean field a JSON boolean; an optional text
  field may also be absent or null.
\<close>

fun text_field :: "json option \<Rightarrow> string option" where
  "text_field (Some (JStr s)) = Some s"
| "text_field _ = None"

fun bool_field :: "json option \<Rightarrow> bool option" where
  "bool_field (Some (JBool b)) = Some b"
| "bool_field _ = None"

fun optional_text_field :: "json option \<Rightarrow> string option option" where
  "optional_text_field None = Some None"
| "optional_text_field (Some JNull) = Some None"
| "optional_text_field (Some (JStr s)) = Some (Some s)"
| "optional_text_field _ = None"

text \<open>
  Modelled from the spec: the body of \<^verbatim>\<open>Product.deserialize\<close> is missing. The
  specification: name is required text, description is optional free text, price a
  decimal, available a boolean, category one of the enumerated names; a supplied id is
  ignored; a missing required field or a field of the wrong type makes deserialization
  fail. \<open>fields_of\<close> reads the five attributes from a JSON object.
\<close>

definition fields_of :: "'d models \<Rightarrow> (string \<times> json) list \<Rightarrow> 'd product option" where
  "fields_of M kvs = do {
     n \<leftarrow> text_field (map_of kvs ''name'');
     ds \<leftarrow> optional_text_field (map_of kvs ''description'');
     pr \<leftarrow> Option.bind (map_of kvs ''price'') (Decimal M);
     a \<leftarrow> bool_field (map_of kvs ''available'');
     c \<leftarrow> text_field (map_of kvs ''category'');
     if c \<in> set (Category M)
     then Some \<lparr>pid = None, name = n, description = ds, price = pr, available = a, category = c\<rparr>
     else None
   }"

text \<open>
  Modelled from the spec: \<^verbatim>\<open>Product.deserialize\<close> is missing. It assigns the five
  attributes of the receiving object from the body and leaves its id alone; the
  specification has it raise a type error when it fails, which the update handler maps to
  400. The first argument is the id of the receiving object (\<open>None\<close> for a fresh
  \<^verbatim>\<open>Product()\<close>).
\<close>

fun deserialize :: "'d models \<Rightarrow> nat option \<Rightarrow> json \<Rightarrow> exn + 'd product" where
  "deserialize M i (JObj kvs) =
     (case fields_of M kvs of
        None \<Rightarrow> Inl TypeError
      | Some p \<Rightarrow> Inr (p\<lparr>pid := i\<rparr>))"
| "deserialize M i _ = Inl TypeError"

text \<open>
  Modelled from the spec: \<^verbatim>\<open>Product.serialize\<close> is missing. The entity's JSON shape is
  \<^verbatim>\<open>{id, name, description, price, available, category}\<close>, the category as its name.
\<close>

definition serialize :: "'d models \<Rightarrow> 'd product \<Rightarrow> json" where
  "serialize M p = JObj
     [(''id'', case pid p of None \<Rightarrow> JNull | Some i \<Rightarrow> JNum (int i)),
      (''name'', JStr (name p)),
      (''description'', case description p of None \<Rightarrow> JNull | Some d \<Rightarrow> JStr d),
      (''price'', price_json M (price p)),
      (''available'', JBool (available p)),
      (''category'', JStr (category p))]"

text \<open>
  Modelled from the spec: \<^verbatim>\<open>Product.find\<close> is missing. The table of persisted products
  is the list of rows in the order the persistence layer returns them. Lookup by id yields the entity
  or nothing.
\<close>

definition find_product :: "'d store \<Rightarrow> nat \<Rightarrow> 'd product option" where
  "find_product st i = List.find (\<lambda>p. pid p = Some i) st"

text \<open>
  Modelled from the spec: \<^verbatim>\<open>Product.all\<close> is missing. It returns every persisted
  Product.
\<close>

definition all_products :: "'d store \<Rightarrow> 'd product list" where
  "all_products st = st"

text \<open>
  Modelled from the spec: \<^verbatim>\<open>Product.find_by_name\<close> is missing. Exact-match lookup
  against the persisted name field.
\<close>

definition find_by_name :: "'d store \<Rightarrow> string \<Rightarrow> 'd product list" where
  "find_by_name st n = filter (\<lambda>p. name p = n) st"

text \<open>
  Modelled from the spec: \<^verbatim>\<open>Product.find_by_category\<close> is missing. It returns the
  entities whose category matches the value it is given; the category of an entity is a
  member of the enumeration, so no entity matches a value that is not a member.
\<close>

definition find_by_category :: "'d store \<Rightarrow> cat_value \<Rightarrow> 'd product list" where
  "find_by_category st v = filter (\<lambda>p. Member (category p) = v) st"

text \<open>
  Modelled from the spec: the reading of the \<^verbatim>\<open>available\<close> string inside
  \<^verbatim>\<open>Product.find_by_availability\<close> is missing. The specification: the supplied string is
  interpreted as a boolean, and filtering by \<^verbatim>\<open>available=true\<close> or \<^verbatim>\<open>available=false\<close>
  returns exactly the subset matching that flag. So \<^verbatim>\<open>true\<close> reads as true and
  \<^verbatim>\<open>false\<close> as false; how any other word reads is a parameter.
\<close>

definition as_bool :: "'d models \<Rightarrow> string \<Rightarrow> bool" where
  "as_bool M s =
     (if s = ''true'' then True else if s = ''false'' then False else other_words M s)"

text \<open>
  Modelled from the spec: \<^verbatim>\<open>Product.find_by_availability\<close> is missing. The handler
  hands it the query string as it is; the string is read as a boolean and matched against
  the availability flag.
\<close>

definition find_by_availability :: "'d models \<Rightarrow> 'd store \<Rightarrow> string \<Rightarrow> 'd product list" where
  "find_by_availability M st a = filter (\<lambda>p. available p = as_bool M a) st"

text \<open>
  Modelled from the spec: \<^verbatim>\<open>Product.create\<close> is missing. Persisting the entity assigns
  a new unique id: here the least number above every id in the table. The new row comes
  last.
\<close>

fun id_bound :: "'d store \<Rightarrow> nat" where
  "id_bound [] = 0"
| "id_bound (p # ps) = max (case pid p of None \<Rightarrow> 0 | Some i \<Rightarrow> Suc i) (id_bound ps)"

definition create :: "'d product \<Rightarrow> 'd store \<Rightarrow> 'd product \<times> 'd store" where
  "create p st = (let q = p\<lparr>pid := Some (id_bound st)\<rparr> in (q, st @ [q]))"

text \<open>
  Modelled from the spec: \<^verbatim>\<open>Product.update\<close> is missing. It persists the entity in
  place of the stored one of the same id.
\<close>

definition update :: "'d product \<Rightarrow> 'd store \<Rightarrow> 'd store" where
  "update p st = map (\<lambda>q. if pid q = pid p then p else q) st"

text \<open>
  Modelled from the spec: \<^verbatim>\<open>Product.delete\<close> is missing. It removes the entity from
  the table; deletion always succeeds once the entity is located.
\<close>

definition delete :: "'d product \<Rightarrow> 'd store \<Rightarrow> 'd store" where
  "delete p st = filter (\<lambda>q. pid q \<noteq> pid p) st"

section \<open>The handlers of \<^verbatim>\<open>service/routes.py\<close>\<close>

text \<open>
  Each handler follows its source line by line. What is left out is the logging. The id
  in the path is modelled by the number it denotes, \<^verbatim>\<open>request.get_json()\<close> by the parsed
  body, a returned dict or list by the JSON value it is sent as. A model object is true in
  a truth test, \<^verbatim>\<open>None\<close> is false: \<^verbatim>\<open>if not prods\<close> is the \<open>None\<close> case of the lookup.
\<close>

subsection \<open>Content-Type guard\<close>

definition check_content_type :: "request \<Rightarrow> string \<Rightarrow> exn + unit" where
  "check_content_type req content_type =
     (case headers req ''Content-Type'' of
        None \<Rightarrow>
          Inl (HTTPException HTTP_415_UNSUPPORTED_MEDIA_TYPE
                 (''Content-Type must be '' @ content_type))
      | Some v \<Rightarrow>
          if v = content_type then Inr ()
          else Inl (HTTPException HTTP_415_UNSUPPORTED_MEDIA_TYPE
                      (''Content-Type must be '' @ content_type)))"

subsection \<open>Create\<close>

definition create_products ::
  "'d models \<Rightarrow> 'd store \<Rightarrow> request \<Rightarrow> (exn + response) \<times> 'd store" where
  "create_products M st req =
     (case check_content_type req ''application/json'' of
        Inl e \<Rightarrow> (Inl e, st)
      | Inr _ \<Rightarrow>
          (case deserialize M None (get_json req) of
             Inl e \<Rightarrow> (Inl e, st)
           | Inr product \<Rightarrow>
               (case create product st of
                  (product', st') \<Rightarrow>
                    (Inr \<lparr>status = HTTP_201_CREATED,
                          body = serialize M product',
                          resp_headers = [(''Location'', ''/'')]\<rparr>, st'))))"

subsection \<open>List\<close>

definition list_products ::
  "'d models \<Rightarrow> 'd store \<Rightarrow> request \<Rightarrow> (exn + response) \<times> 'd store" where
  "list_products M st req =
     (let name = args req ''name'';
          category = args req ''category'';
          available = args req ''available''
      in
        if truthy name then
          (Inr (reply (JArr (map (serialize M) (find_by_name st (the name)))) HTTP_200_OK), st)
        else if truthy category then
          (case getattr_Category M (the category) of
             Inl e \<Rightarrow> (Inl e, st)
           | Inr c \<Rightarrow>
               (Inr (reply (JArr (map (serialize M) (find_by_category st c))) HTTP_200_OK), st))
        else if truthy available then
          (Inr (reply (JArr (map (serialize M) (find_by_availability M st (the available))))
                  HTTP_200_OK), st)
        else
          (Inr (reply (JArr (map (serialize M) (all_products st))) HTTP_200_OK), st))"

subsection \<open>Read\<close>

definition get_products ::
  "'d models \<Rightarrow> 'd store \<Rightarrow> nat \<Rightarrow> (exn + response) \<times> 'd store" where
  "get_products M st product_id =
     (case find_product st product_id of
        None \<Rightarrow> (Inr (reply (JObj []) HTTP_404_NOT_FOUND), st)
      | Some prods \<Rightarrow> (Inr (reply (serialize M prods) HTTP_200_OK), st))"

subsection \<open>Update\<close>

definition update_products ::
  "'d models \<Rightarrow> 'd store \<Rightarrow> nat \<Rightarrow> request \<Rightarrow> (exn + response) \<times> 'd store" where
  "update_products M st product_id req =
     (case check_content_type req ''application/json'' of
        Inl e \<Rightarrow> (Inl e, st)
      | Inr _ \<Rightarrow>
          (case find_product st product_id of
             None \<Rightarrow> (Inr (reply (JObj []) HTTP_404_NOT_FOUND), st)
           | Some prod_upt \<Rightarrow>
               (case deserialize M (pid prod_upt) (get_json req) of
                  Inl TypeError \<Rightarrow> (Inr (reply (JObj []) HTTP_400_BAD_REQUEST), st)
                | Inl e \<Rightarrow> (Inl e, st)
                | Inr prod_upt' \<Rightarrow>
                    (Inr (reply (serialize M prod_upt') HTTP_200_OK), update prod_upt' st))))"

subsection \<open>Delete\<close>

definition delete_products ::
  "'d models \<Rightarrow> 'd store \<Rightarrow> nat \<Rightarrow> (exn + response) \<times> 'd store" where
  "delete_products M st product_id =
     (case find_product st product_id of
        None \<Rightarrow> (Inr (reply (JObj []) HTTP_404_NOT_FOUND), st)
      | Some prod_upt \<Rightarrow> (Inr (reply (JObj []) HTTP_204_NO_CONTENT), delete prod_upt st))"


section \<open>Sample data\<close>

text \<open>
  One instance of the parameters of the model layer, a table of three products and a few
  requests, on which the definitions above are evaluated. Prices are in cents; the sample
  reading of \<^verbatim>\<open>available\<close> takes the word \<^verbatim>\<open>True\<close> as true and every word other than
  \<^verbatim>\<open>true\<close> and \<^verbatim>\<open>True\<close> as false.
\<close>

fun sample_Decimal :: "json \<Rightarrow> int option" where
  "sample_Decimal (JNum n) = Some n"
| "sample_Decimal _ = None"

fun sample_words :: "string \<Rightarrow> bool" where
  "sample_words s = (s = ''True'')"

definition sample_models :: "int models" where
  "sample_models =
     \<lparr>Category = [''CLOTHS'', ''FOOD''],
      Category_attributes = [''__class__'', ''__doc__'', ''__members__'', ''__module__''],
      Decimal = sample_Decimal, price_json = JNum, other_words = sample_words\<rparr>"

definition hat :: "int product" where
  "hat = \<lparr>pid = Some 1, name = ''Hat'', description = Some ''Red hat'', price = 999,
          available = True, category = ''CLOTHS''\<rparr>"

definition pie :: "int product" where
  "pie = \<lparr>pid = Some 2, name = ''Pie'', description = None, price = 350,
          available = False, category = ''FOOD''\<rparr>"

definition old_hat :: "int product" where
  "old_hat = \<lparr>pid = Some 3, name = ''Hat'', description = None, price = 500,
              available = False, category = ''CLOTHS''\<rparr>"

definition sample_store :: "int store" where
  "sample_store = [hat, pie, old_hat]"

definition cap_payload :: json where
  "cap_payload =
     JObj [(''name'', JStr ''Cap''), (''description'', JStr ''Blue cap''),
           (''price'', JNum 1250), (''available'', JBool True), (''category'', JStr ''CLOTHS'')]"

definition cap :: "int product" where
  "cap = \<lparr>pid = None, name = ''Cap'', description = Some ''Blue cap'', price = 1250,
          available = True, category = ''CLOTHS''\<rparr>"

definition json_request :: "json \<Rightarrow> request" where
  "json_request b =
     \<lparr>headers = [''Content-Type'' \<mapsto> ''application/json''], args = Map.empty, get_json = b\<rparr>"

definition plain_request :: "json \<Rightarrow> request" where
  "plain_request b =
     \<lparr>headers = [''Content-Type'' \<mapsto> ''plain/text''], args = Map.empty, get_json = b\<rparr>"

definition bare_request :: "json \<Rightarrow> request" where
  "bare_request b = \<lparr>headers = Map.empty, args = Map.empty, get_json = b\<rparr>"

definition query :: "(string \<times> string) list \<Rightarrow> request" where
  "query kvs = \<lparr>headers = Map.empty, args = map_of kvs, get_json = JNull\<rparr>"

lemmas sample_defs =
  sample_models_def hat_def pie_def old_hat_def sample_store_def cap_payload_def cap_def
  json_request_def plain_request_def bare_request_def query_def

lemmas status_defs =
  HTTP_200_OK_def HTTP_201_CREATED_def HTTP_204_NO_CONTENT_def HTTP_400_BAD_REQUEST_def
  HTTP_404_NOT_FOUND_def HTTP_415_UNSUPPORTED_MEDIA_TYPE_def

section \<open>Facts about the model layer\<close>

lemma find_product_None_iff:
  "find_product st i = None \<longleftrightarrow> (\<forall>p\<in>set st. pid p \<noteq> Some i)"
  by (auto simp: find_product_def find_None_iff)

lemma find_product_SomeD: "find_product st i = Some p \<Longrightarrow> pid p = Some i \<and> p \<in> set st"
  by (auto simp: find_product_def find_Some_iff)

lemma id_bound_above: "p \<in> set st \<Longrightarrow> pid p = Some i \<Longrightarrow> i < id_bound st"
  by (induction st) auto

lemma find_product_id_bound: "find_product st (id_bound st) = None"
  using id_bound_above [of _ st "id_bound st"] by (auto simp: find_product_None_iff)

lemma find_product_snoc:
  "find_product st i = None \<Longrightarrow> pid q = Some i \<Longrightarrow> find_product (st @ [q]) i = Some q"
  by (induction st) (auto simp: find_product_def split: if_splits)

lemma find_product_update:
  "find_product st i = Some old \<Longrightarrow> pid q = Some i \<Longrightarrow> find_product (update q st) i = Some q"
  by (induction st) (auto simp: find_product_def update_def split: if_splits)

lemma find_product_delete: "pid p = Some i \<Longrightarrow> find_product (delete p st) i = None"
  by (auto simp: find_product_None_iff delete_def)

lemma deserialize_InlD: "deserialize M i d = Inl e \<Longrightarrow> e = TypeError"
  by (cases d) (auto split: option.splits)

lemma deserialize_pid: "deserialize M i d = Inr p \<Longrightarrow> pid p = i"
  by (cases d) (auto split: option.splits)

lemma deserialize_other_id:
  "deserialize M i d = Inr p \<Longrightarrow> deserialize M j d = Inr (p\<lparr>pid := j\<rparr>)"
  by (cases d) (auto split: option.splits)

text \<open>
  The body decides the five attributes: whatever object receives a body that
  deserializes, it ends with the same name, description, price, availability and category.
\<close>

lemma deserialize_fields:
  "deserialize M i d = Inr p \<Longrightarrow> deserialize M j d = Inr q \<Longrightarrow>
     name p = name q \<and> description p = description q \<and> price p = price q
     \<and> available p = available q \<and> category p = category q"
  by (cases d) (auto split: option.splits)

text \<open>A body without a name, and a body whose availability is not a boolean, fail.\<close>

lemma deserialize_missing_name:
  "map_of kvs ''name'' = None \<Longrightarrow> deserialize M i (JObj kvs) = Inl TypeError"
  by (simp add: fields_of_def)

lemma deserialize_available_not_bool:
  "map_of kvs ''available'' = Some (JStr s) \<Longrightarrow> deserialize M i (JObj kvs) = Inl TypeError"
  by (simp add: fields_of_def split: Option.bind_split)


section \<open>Content-Type guard\<close>

text \<open>
  C3. For every write request (create or update) and every required media type, the
  Content-Type guard fails with HTTP 415 and a message that states the required type when
  the header is absent, fails with the same 415 when the header is present and differs from
  the required type, and passes (returns nothing, changes nothing) when the header equals
  the required type. When the guard fails in the create or the update handler, the handler
  ends with that failure and the table of products is as before.
\<close>

theorem check_content_type_guard:
  "(headers req ''Content-Type'' = None \<longrightarrow>
      check_content_type req ct = Inl (HTTPException 415 (''Content-Type must be '' @ ct)))
   \<and> (\<forall>v. headers req ''Content-Type'' = Some v \<and> v \<noteq> ct \<longrightarrow>
      check_content_type req ct = Inl (HTTPException 415 (''Content-Type must be '' @ ct)))
   \<and> (headers req ''Content-Type'' = Some ct \<longrightarrow> check_content_type req ct = Inr ())
   \<and> (\<forall>e. check_content_type req ''application/json'' = Inl e \<longrightarrow>
        create_products M st req = (Inl e, st) \<and> update_products M st i req = (Inl e, st))"
  by (auto simp: check_content_type_def HTTP_415_UNSUPPORTED_MEDIA_TYPE_def
        create_products_def update_products_def)

theorem check_content_type_guard_witness:
  "headers (bare_request JNull) ''Content-Type'' = None
   \<and> check_content_type (bare_request JNull) ''application/json''
       = Inl (HTTPException 415 ''Content-Type must be application/json'')
   \<and> headers (plain_request JNull) ''Content-Type'' = Some ''plain/text''
   \<and> ''plain/text'' \<noteq> ''application/json''
   \<and> check_content_type (plain_request JNull) ''application/json''
       = Inl (HTTPException 415 ''Content-Type must be application/json'')
   \<and> create_products sample_models sample_store (plain_request JNull)
       = (Inl (HTTPException 415 ''Content-Type must be application/json''), sample_store)
   \<and> update_products sample_models sample_store 1 (plain_request JNull)
       = (Inl (HTTPException 415 ''Content-Type must be application/json''), sample_store)
   \<and> headers (json_request JNull) ''Content-Type'' = Some ''application/json''
   \<and> check_content_type (json_request JNull) ''application/json'' = Inr ()"
  using check_content_type_guard [of "bare_request JNull" "''application/json''"]
        check_content_type_guard [of "plain_request JNull" "''application/json''"
          sample_models sample_store 1]
        check_content_type_guard [of "json_request JNull" "''application/json''"]
  by (simp add: bare_request_def plain_request_def json_request_def check_content_type_def
        HTTP_415_UNSUPPORTED_MEDIA_TYPE_def)

section \<open>Listing and filtering\<close>




text \<open>
  C2, as the code has it. For every list request whose \<^verbatim>\<open>name\<close> and \<^verbatim>\<open>category\<close>
  parameters are absent or empty and whose \<^verbatim>\<open>available\<close> parameter is a non-empty string,
  the string is read as a boolean and the handler returns HTTP 200 with exactly the
  persisted Products whose availability flag equals that boolean. In particular
  \<^verbatim>\<open>available=true\<close> returns exactly the available Products and \<^verbatim>\<open>available=false\<close>
  exactly the unavailable ones.
\<close>

theorem list_products_available:
  assumes "\<not> truthy (args req ''name'')" and "\<not> truthy (args req ''category'')"
      and "args req ''available'' = Some a" and "a \<noteq> []"
  shows "list_products M st req =
           (Inr (reply (JArr (map (serialize M) (filter (\<lambda>p. available p = as_bool M a) st)))
                   200), st)
         \<and> (a = ''true'' \<longrightarrow>
              list_products M st req =
                (Inr (reply (JArr (map (serialize M) (filter available st))) 200), st))
         \<and> (a = ''false'' \<longrightarrow>
              list_products M st req =
                (Inr (reply (JArr (map (serialize M) (filter (\<lambda>p. \<not> available p) st))) 200),
                 st))"
  using assms
  by (auto simp: list_products_def Let_def HTTP_200_OK_def find_by_availability_def
        as_bool_def)

theorem list_products_available_witness:
  "\<not> truthy (args (query [(''name'', []), (''available'', ''true'')]) ''name'')
   \<and> \<not> truthy (args (query [(''name'', []), (''available'', ''true'')]) ''category'')
   \<and> args (query [(''name'', []), (''available'', ''true'')]) ''available'' = Some ''true''
   \<and> list_products sample_models sample_store (query [(''name'', []), (''available'', ''true'')])
       = (Inr (reply (JArr [serialize sample_models hat]) 200), sample_store)
   \<and> \<not> truthy (args (query [(''available'', ''false'')]) ''name'')
   \<and> \<not> truthy (args (query [(''available'', ''false'')]) ''category'')
   \<and> args (query [(''available'', ''false'')]) ''available'' = Some ''false''
   \<and> list_products sample_models sample_store (query [(''available'', ''false'')])
       = (Inr (reply (JArr [serialize sample_models pie, serialize sample_models old_hat]) 200),
          sample_store)"
  using
    list_products_available [of "query [(''name'', []), (''available'', ''true'')]" "''true''"
      sample_models sample_store]
    list_products_available [of "query [(''available'', ''false'')]" "''false''"
      sample_models sample_store]
  by (simp add: sample_defs as_bool_def)

text \<open>
  C2 as stated fails for a request that carries \<^verbatim>\<open>available\<close> together with a name: the
  name filter wins, and the answer holds an available and an unavailable product, so it
  is the subset of no availability flag.
\<close>

theorem list_products_available_counterexample:
  "args (query [(''name'', ''Hat''), (''available'', ''true'')]) ''available'' = Some ''true''
   \<and> fst (list_products sample_models sample_store
            (query [(''name'', ''Hat''), (''available'', ''true'')]))
       = Inr (reply (JArr [serialize sample_models hat, serialize sample_models old_hat]) 200)
   \<and> available hat
   \<and> \<not> available old_hat"
  by (simp add: sample_defs list_products_def Let_def find_by_name_def HTTP_200_OK_def)

text \<open>
  C9, as the code has it. For every list request whose \<^verbatim>\<open>name\<close> parameter is absent or
  empty and whose \<^verbatim>\<open>category\<close> parameter is a non-empty string that names no attribute of
  the class \<^verbatim>\<open>Category\<close> (neither an enumerated category nor another attribute of the
  class object), the handler returns no response at all: the lookup of the name raises
  \<^verbatim>\<open>AttributeError\<close>, nothing in the handler catches it, and the table is unchanged.
\<close>

theorem list_products_unknown_category:
  assumes "\<not> truthy (args req ''name'')"
      and "args req ''category'' = Some c" and "c \<noteq> []"
      and "c \<notin> set (Category M)" and "c \<notin> set (Category_attributes M)"
  shows "list_products M st req = (Inl (AttributeError c), st)"
  using assms by (simp add: list_products_def Let_def getattr_Category_def)

theorem list_products_unknown_category_witness:
  "\<not> truthy (args (query [(''category'', ''BOGUS''), (''available'', ''true'')]) ''name'')
   \<and> args (query [(''category'', ''BOGUS''), (''available'', ''true'')]) ''category''
       = Some ''BOGUS''
   \<and> ''BOGUS'' \<noteq> []
   \<and> ''BOGUS'' \<notin> set (Category sample_models)
   \<and> ''BOGUS'' \<notin> set (Category_attributes sample_models)
   \<and> list_products sample_models sample_store
        (query [(''category'', ''BOGUS''), (''available'', ''true'')])
       = (Inl (AttributeError ''BOGUS''), sample_store)"
  using list_products_unknown_category
    [of "query [(''category'', ''BOGUS''), (''available'', ''true'')]" "''BOGUS''"
      sample_models sample_store]
  by (simp add: sample_defs)

text \<open>
  C9 as stated fails when a non-empty name comes with the unknown category (the name
  filter answers with HTTP 200 and the category is never looked up), and when the category
  is the empty string, which names no category either (the handler lists all products).
  Nor does every name outside the enumeration make the lookup raise: \<^verbatim>\<open>__class__\<close> names
  an attribute that every class object has, and \<^verbatim>\<open>getattr\<close> returns it.
\<close>

theorem list_products_unknown_category_counterexample:
  "args (query [(''name'', ''Pie''), (''category'', ''BOGUS'')]) ''category'' = Some ''BOGUS''
   \<and> ''BOGUS'' \<notin> set (Category sample_models)
   \<and> fst (list_products sample_models sample_store
            (query [(''name'', ''Pie''), (''category'', ''BOGUS'')]))
       = Inr (reply (JArr [serialize sample_models pie]) 200)
   \<and> args (query [(''category'', [])]) ''category'' = Some []
   \<and> [] \<notin> set (Category sample_models)
   \<and> fst (list_products sample_models sample_store (query [(''category'', [])]))
       = Inr (reply (JArr [serialize sample_models hat, serialize sample_models pie,
                           serialize sample_models old_hat]) 200)
   \<and> ''__class__'' \<notin> set (Category sample_models)
   \<and> getattr_Category sample_models ''__class__'' = Inr (Other ''__class__'')"
  by (simp add: sample_defs list_products_def Let_def find_by_name_def all_products_def
        HTTP_200_OK_def getattr_Category_def)

text \<open>
  C10. The list handler tests its query parameters for truth, not for presence: a
  parameter supplied with the empty string is treated as an absent one. A request with an
  empty \<^verbatim>\<open>name\<close> gets no name lookup: it is answered by the category filter when the
  category is non-empty (and names an enumerated category), else by the availability
  filter when \<^verbatim>\<open>available\<close> is non-empty, else by the list of all products. Likewise a
  request with no name and an empty \<^verbatim>\<open>category\<close> is answered by the availability filter
  or the list of all products, and one with no name, no category and an empty
  \<^verbatim>\<open>available\<close> by the list of all products. In each case the outcome is that of the
  same request without the empty parameter.
\<close>

theorem list_products_empty_is_absent:
  "(args req ''name'' = Some [] \<longrightarrow>
      (\<forall>c. args req ''category'' = Some c \<and> c \<noteq> [] \<and> c \<in> set (Category M) \<longrightarrow>
         list_products M st req =
           (Inr (reply (JArr (map (serialize M) (filter (\<lambda>p. category p = c) st))) 200), st))
      \<and> (\<forall>a. \<not> truthy (args req ''category'') \<and> args req ''available'' = Some a \<and> a \<noteq> []
           \<longrightarrow>
         list_products M st req =
           (Inr (reply (JArr (map (serialize M)
                   (filter (\<lambda>p. available p = as_bool M a) st))) 200), st))
      \<and> (\<not> truthy (args req ''category'') \<and> \<not> truthy (args req ''available'') \<longrightarrow>
         list_products M st req = (Inr (reply (JArr (map (serialize M) st)) 200), st)))
   \<and> (\<not> truthy (args req ''name'') \<and> args req ''category'' = Some [] \<longrightarrow>
      (\<forall>a. args req ''available'' = Some a \<and> a \<noteq> [] \<longrightarrow>
         list_products M st req =
           (Inr (reply (JArr (map (serialize M)
                   (filter (\<lambda>p. available p = as_bool M a) st))) 200), st))
      \<and> (\<not> truthy (args req ''available'') \<longrightarrow>
         list_products M st req = (Inr (reply (JArr (map (serialize M) st)) 200), st)))
   \<and> (\<not> truthy (args req ''name'') \<and> \<not> truthy (args req ''category'')
        \<and> args req ''available'' = Some [] \<longrightarrow>
      list_products M st req = (Inr (reply (JArr (map (serialize M) st)) 200), st))
   \<and> list_products M st (req\<lparr>args := (args req)(''name'' \<mapsto> [])\<rparr>)
     = list_products M st (req\<lparr>args := (args req)(''name'' := None)\<rparr>)
   \<and> list_products M st (req\<lparr>args := (args req)(''category'' \<mapsto> [])\<rparr>)
     = list_products M st (req\<lparr>args := (args req)(''category'' := None)\<rparr>)
   \<and> list_products M st (req\<lparr>args := (args req)(''available'' \<mapsto> [])\<rparr>)
     = list_products M st (req\<lparr>args := (args req)(''available'' := None)\<rparr>)"
  by (auto simp: list_products_def Let_def HTTP_200_OK_def find_by_category_def
        find_by_availability_def all_products_def getattr_Category_def)

theorem list_products_empty_is_absent_witness:
  "args (query [(''name'', []), (''category'', ''FOOD'')]) ''name'' = Some []
   \<and> args (query [(''name'', []), (''category'', ''FOOD'')]) ''category'' = Some ''FOOD''
   \<and> ''FOOD'' \<in> set (Category sample_models)
   \<and> list_products sample_models sample_store (query [(''name'', []), (''category'', ''FOOD'')])
       = (Inr (reply (JArr [serialize sample_models pie]) 200), sample_store)
   \<and> args (query [(''name'', []), (''available'', ''true'')]) ''name'' = Some []
   \<and> \<not> truthy (args (query [(''name'', []), (''available'', ''true'')]) ''category'')
   \<and> args (query [(''name'', []), (''available'', ''true'')]) ''available'' = Some ''true''
   \<and> list_products sample_models sample_store (query [(''name'', []), (''available'', ''true'')])
       = (Inr (reply (JArr [serialize sample_models hat]) 200), sample_store)
   \<and> args (query [(''name'', [])]) ''name'' = Some []
   \<and> list_products sample_models sample_store (query [(''name'', [])])
       = (Inr (reply (JArr [serialize sample_models hat, serialize sample_models pie,
                            serialize sample_models old_hat]) 200), sample_store)
   \<and> \<not> truthy (args (query [(''category'', []), (''available'', ''false'')]) ''name'')
   \<and> args (query [(''category'', []), (''available'', ''false'')]) ''category'' = Some []
   \<and> list_products sample_models sample_store
        (query [(''category'', []), (''available'', ''false'')])
       = (Inr (reply (JArr [serialize sample_models pie, serialize sample_models old_hat]) 200),
          sample_store)
   \<and> args (query [(''available'', [])]) ''available'' = Some []
   \<and> list_products sample_models sample_store (query [(''available'', [])])
       = (Inr (reply (JArr [serialize sample_models hat, serialize sample_models pie,
                            serialize sample_models old_hat]) 200), sample_store)"
  using
    list_products_empty_is_absent [of "query [(''name'', []), (''category'', ''FOOD'')]"
      sample_models sample_store]
    list_products_empty_is_absent [of "query [(''name'', []), (''available'', ''true'')]"
      sample_models sample_store]
    list_products_empty_is_absent [of "query [(''name'', [])]" sample_models sample_store]
    list_products_empty_is_absent [of "query [(''category'', []), (''available'', ''false'')]"
      sample_models sample_store]
    list_products_empty_is_absent [of "query [(''available'', [])]" sample_models sample_store]
  by (simp add: sample_defs as_bool_def)

section \<open>Create and read\<close>

text \<open>
  C4. For every payload that deserializes (a valid Product payload) and is posted with
  Content-Type \<^verbatim>\<open>application/json\<close>, the create handler returns HTTP 201 whose body is
  the serialized created entity, the fields of the payload together with a newly assigned
  id that no persisted product had; and a read by that id, on the table the create left,
  returns HTTP 200 with the same serialized entity.
\<close>

theorem create_read_roundtrip:
  assumes "headers req ''Content-Type'' = Some ''application/json''"
      and "deserialize M None (get_json req) = Inr p"
  shows "\<exists>i st'. create_products M st req =
            (Inr \<lparr>status = 201, body = serialize M (p\<lparr>pid := Some i\<rparr>),
                  resp_headers = [(''Location'', ''/'')]\<rparr>, st')
          \<and> find_product st i = None
          \<and> find_product st' i = Some (p\<lparr>pid := Some i\<rparr>)
          \<and> get_products M st' i = (Inr (reply (serialize M (p\<lparr>pid := Some i\<rparr>)) 200), st')"
proof -
  let ?i = "id_bound st"
  let ?q = "p\<lparr>pid := Some ?i\<rparr>"
  have fresh: "find_product st ?i = None"
    by (rule find_product_id_bound)
  have c: "create_products M st req =
            (Inr \<lparr>status = 201, body = serialize M ?q,
                  resp_headers = [(''Location'', ''/'')]\<rparr>, st @ [?q])"
    using assms
    by (simp add: create_products_def check_content_type_def create_def Let_def
          HTTP_201_CREATED_def)
  have f: "find_product (st @ [?q]) ?i = Some ?q"
    using fresh by (rule find_product_snoc) simp
  then have g: "get_products M (st @ [?q]) ?i = (Inr (reply (serialize M ?q) 200), st @ [?q])"
    by (simp add: get_products_def HTTP_200_OK_def)
  from c fresh f g show ?thesis by blast
qed

theorem create_read_roundtrip_witness:
  "headers (json_request cap_payload) ''Content-Type'' = Some ''application/json''
   \<and> deserialize sample_models None (get_json (json_request cap_payload)) = Inr cap
   \<and> create_products sample_models sample_store (json_request cap_payload) =
         (Inr \<lparr>status = 201, body = serialize sample_models (cap\<lparr>pid := Some 4\<rparr>),
               resp_headers = [(''Location'', ''/'')]\<rparr>,
          [hat, pie, old_hat, cap\<lparr>pid := Some 4\<rparr>])
   \<and> find_product sample_store 4 = None
   \<and> get_products sample_models [hat, pie, old_hat, cap\<lparr>pid := Some 4\<rparr>] 4
       = (Inr (reply (serialize sample_models (cap\<lparr>pid := Some 4\<rparr>)) 200),
          [hat, pie, old_hat, cap\<lparr>pid := Some 4\<rparr>])"
proof -
  have h: "headers (json_request cap_payload) ''Content-Type'' = Some ''application/json''"
    by (simp add: json_request_def)
  have d: "deserialize sample_models None (get_json (json_request cap_payload)) = Inr cap"
    by (simp add: sample_defs fields_of_def)
  have c: "create_products sample_models sample_store (json_request cap_payload) =
         (Inr \<lparr>status = 201, body = serialize sample_models (cap\<lparr>pid := Some 4\<rparr>),
               resp_headers = [(''Location'', ''/'')]\<rparr>,
          [hat, pie, old_hat, cap\<lparr>pid := Some 4\<rparr>])"
    using h d
    by (simp add: create_products_def check_content_type_def create_def Let_def
          HTTP_201_CREATED_def sample_store_def hat_def pie_def old_hat_def)
  from create_read_roundtrip [OF h d, of sample_store] obtain i st'
    where r: "create_products sample_models sample_store (json_request cap_payload) =
            (Inr \<lparr>status = 201, body = serialize sample_models (cap\<lparr>pid := Some i\<rparr>),
                  resp_headers = [(''Location'', ''/'')]\<rparr>, st')"
      and n: "find_product sample_store i = None"
      and g: "get_products sample_models st' i
              = (Inr (reply (serialize sample_models (cap\<lparr>pid := Some i\<rparr>)) 200), st')"
    by blast
  from r c have st': "st' = [hat, pie, old_hat, cap\<lparr>pid := Some 4\<rparr>]"
    by simp
  from r c have "serialize sample_models (cap\<lparr>pid := Some i\<rparr>)
      = serialize sample_models (cap\<lparr>pid := Some 4\<rparr>)"
    by simp
  then have i: "i = 4"
    by (simp add: serialize_def)
  from h d c n g show ?thesis
    unfolding st' i by simp
qed

section \<open>Update\<close>

text \<open>
  C5, as the code has it. For every existing Product id and every body that deserializes
  (a valid replacement body), sent with Content-Type \<^verbatim>\<open>application/json\<close>, the update
  handler replaces name, description, price, availability and category by those of the
  body, leaves the id as it was, persists the entity (a lookup by the id then yields it)
  and returns HTTP 200 with the serialized updated entity.
\<close>

theorem update_replaces_fields:
  assumes "headers req ''Content-Type'' = Some ''application/json''"
      and "find_product st i = Some old"
      and "deserialize M None (get_json req) = Inr p"
  shows "update_products M st i req =
           (Inr (reply (serialize M (p\<lparr>pid := Some i\<rparr>)) 200), update (p\<lparr>pid := Some i\<rparr>) st)
         \<and> find_product (update (p\<lparr>pid := Some i\<rparr>) st) i = Some (p\<lparr>pid := Some i\<rparr>)
         \<and> pid old = Some i"
proof -
  have i: "pid old = Some i"
    using assms(2) by (simp add: find_product_SomeD)
  have d: "deserialize M (pid old) (get_json req) = Inr (p\<lparr>pid := Some i\<rparr>)"
    using deserialize_other_id [OF assms(3), of "Some i"] i by simp
  have u: "update_products M st i req =
           (Inr (reply (serialize M (p\<lparr>pid := Some i\<rparr>)) 200), update (p\<lparr>pid := Some i\<rparr>) st)"
    using assms(1,2) d
    by (simp add: update_products_def check_content_type_def HTTP_200_OK_def)
  have "find_product (update (p\<lparr>pid := Some i\<rparr>) st) i = Some (p\<lparr>pid := Some i\<rparr>)"
    using assms(2) by (rule find_product_update) simp
  with u i show ?thesis by simp
qed

theorem update_replaces_fields_witness:
  "headers (json_request cap_payload) ''Content-Type'' = Some ''application/json''
   \<and> find_product sample_store 1 = Some hat
   \<and> deserialize sample_models None (get_json (json_request cap_payload)) = Inr cap
   \<and> update_products sample_models sample_store 1 (json_request cap_payload)
       = (Inr (reply (serialize sample_models (cap\<lparr>pid := Some 1\<rparr>)) 200),
          [cap\<lparr>pid := Some 1\<rparr>, pie, old_hat])
   \<and> find_product [cap\<lparr>pid := Some 1\<rparr>, pie, old_hat] 1 = Some (cap\<lparr>pid := Some 1\<rparr>)"
proof -
  have h: "headers (json_request cap_payload) ''Content-Type'' = Some ''application/json''"
    by (simp add: json_request_def)
  have f: "find_product sample_store 1 = Some hat"
    by (simp add: sample_defs find_product_def)
  have d: "deserialize sample_models None (get_json (json_request cap_payload)) = Inr cap"
    by (simp add: sample_defs fields_of_def)
  have u: "update (cap\<lparr>pid := Some 1\<rparr>) sample_store = [cap\<lparr>pid := Some 1\<rparr>, pie, old_hat]"
    by (simp add: sample_defs update_def)
  from h f d u update_replaces_fields [OF h f d] show ?thesis
    by simp
qed

text \<open>
  C5 as stated fails for a request without a Content-Type header: the product exists and
  the body is a valid replacement, but the guard stops the handler with 415 before any
  lookup, and the table is as before.
\<close>

theorem update_replaces_fields_counterexample:
  "find_product sample_store 1 = Some hat
   \<and> deserialize sample_models None (get_json (bare_request cap_payload)) = Inr cap
   \<and> update_products sample_models sample_store 1 (bare_request cap_payload)
       = (Inl (HTTPException 415 ''Content-Type must be application/json''), sample_store)"
  by (simp add: sample_defs find_product_def fields_of_def update_products_def
        check_content_type_def HTTP_415_UNSUPPORTED_MEDIA_TYPE_def)

text \<open>
  C6, as the code has it. For every update request sent with Content-Type
  \<^verbatim>\<open>application/json\<close> to an existing id, if the body fails deserialization (a required
  field is missing or a field has the wrong type; the empty object is such a body), the
  update handler returns HTTP 400 with the empty JSON object as body.
\<close>

theorem update_bad_body:
  assumes "headers req ''Content-Type'' = Some ''application/json''"
      and "find_product st i = Some old"
  shows "(\<forall>e. deserialize M (pid old) (get_json req) = Inl e \<longrightarrow>
            update_products M st i req = (Inr (reply (JObj []) 400), st))
         \<and> (get_json req = JObj [] \<longrightarrow>
            update_products M st i req = (Inr (reply (JObj []) 400), st))"
proof -
  have a: "update_products M st i req = (Inr (reply (JObj []) 400), st)"
    if "deserialize M (pid old) (get_json req) = Inl e" for e
  proof -
    from that have "e = TypeError" by (rule deserialize_InlD)
    with that assms show ?thesis
      by (simp add: update_products_def check_content_type_def HTTP_400_BAD_REQUEST_def)
  qed
  have "deserialize M (pid old) (JObj []) = Inl TypeError"
    by (simp add: fields_of_def)
  with a show ?thesis by auto
qed

theorem update_bad_body_witness:
  "headers (json_request (JObj [])) ''Content-Type'' = Some ''application/json''
   \<and> find_product sample_store 1 = Some hat
   \<and> get_json (json_request (JObj [])) = JObj []
   \<and> deserialize sample_models (pid hat) (get_json (json_request (JObj []))) = Inl TypeError
   \<and> update_products sample_models sample_store 1 (json_request (JObj []))
       = (Inr (reply (JObj []) 400), sample_store)"
proof -
  have h: "headers (json_request (JObj [])) ''Content-Type'' = Some ''application/json''"
    by (simp add: json_request_def)
  have f: "find_product sample_store 1 = Some hat"
    by (simp add: sample_defs find_product_def)
  have g: "get_json (json_request (JObj [])) = JObj []"
    by (simp add: json_request_def)
  have d: "deserialize sample_models (pid hat) (get_json (json_request (JObj []))) = Inl TypeError"
    by (simp add: json_request_def fields_of_def)
  from h f g d update_bad_body [OF h f, of sample_models] show ?thesis
    by simp
qed

text \<open>
  C6 as stated fails for a request whose Content-Type is not \<^verbatim>\<open>application/json\<close>: the
  id exists and the body \<^verbatim>\<open>{}\<close> fails deserialization, but the guard answers 415 first.
\<close>

theorem update_bad_body_counterexample:
  "find_product sample_store 1 = Some hat
   \<and> deserialize sample_models (pid hat) (get_json (plain_request (JObj []))) = Inl TypeError
   \<and> update_products sample_models sample_store 1 (plain_request (JObj []))
       = (Inl (HTTPException 415 ''Content-Type must be application/json''), sample_store)"
  by (simp add: sample_defs find_product_def fields_of_def update_products_def
        check_content_type_def HTTP_415_UNSUPPORTED_MEDIA_TYPE_def)

section \<open>Delete and not found\<close>

text \<open>
  C7. For every persisted Product, deleting it by its id returns HTTP 204 with the empty
  JSON object as body and removes it from the table, so that on the table the delete left
  a read of the same id returns 404 and a second delete of the same id returns 404 as
  well, leaving that table as it is.
\<close>

theorem delete_then_gone:
  assumes "p \<in> set st" and "pid p = Some i"
  shows "\<exists>st'. delete_products M st i = (Inr (reply (JObj []) 204), st')
         \<and> p \<notin> set st'
         \<and> find_product st' i = None
         \<and> get_products M st' i = (Inr (reply (JObj []) 404), st')
         \<and> delete_products M st' i = (Inr (reply (JObj []) 404), st')"
proof -
  from assms obtain q where q: "find_product st i = Some q"
    using find_product_None_iff [of st i] by (cases "find_product st i") auto
  then have qi: "pid q = Some i"
    by (simp add: find_product_SomeD)
  let ?st = "delete q st"
  have d: "delete_products M st i = (Inr (reply (JObj []) 204), ?st)"
    using q by (simp add: delete_products_def HTTP_204_NO_CONTENT_def)
  have n: "find_product ?st i = None"
    using qi by (rule find_product_delete)
  have m: "p \<notin> set ?st"
    using assms(2) qi by (simp add: delete_def)
  have g: "get_products M ?st i = (Inr (reply (JObj []) 404), ?st)"
    using n by (simp add: get_products_def HTTP_404_NOT_FOUND_def)
  have e: "delete_products M ?st i = (Inr (reply (JObj []) 404), ?st)"
    using n by (simp add: delete_products_def HTTP_404_NOT_FOUND_def)
  from d m n g e show ?thesis by blast
qed

theorem delete_then_gone_witness:
  "pie \<in> set sample_store
   \<and> pid pie = Some 2
   \<and> delete_products sample_models sample_store 2 = (Inr (reply (JObj []) 204), [hat, old_hat])
   \<and> pie \<notin> set [hat, old_hat]
   \<and> find_product [hat, old_hat] 2 = None
   \<and> get_products sample_models [hat, old_hat] 2 = (Inr (reply (JObj []) 404), [hat, old_hat])
   \<and> delete_products sample_models [hat, old_hat] 2
       = (Inr (reply (JObj []) 404), [hat, old_hat])"
proof -
  have m: "pie \<in> set sample_store"
    by (simp add: sample_store_def)
  have i: "pid pie = Some 2"
    by (simp add: pie_def)
  have d: "delete_products sample_models sample_store 2
      = (Inr (reply (JObj []) 204), [hat, old_hat])"
    by (simp add: delete_products_def find_product_def delete_def HTTP_204_NO_CONTENT_def
          sample_store_def hat_def pie_def old_hat_def)
  from delete_then_gone [OF m i, of sample_models] d
  have "pie \<notin> set [hat, old_hat]
     \<and> find_product [hat, old_hat] 2 = None
     \<and> get_products sample_models [hat, old_hat] 2 = (Inr (reply (JObj []) 404), [hat, old_hat])
     \<and> delete_products sample_models [hat, old_hat] 2
         = (Inr (reply (JObj []) 404), [hat, old_hat])"
    by auto
  with m i d show ?thesis
    by simp
qed

text \<open>
  C8. For every id that no persisted Product has, the read handler, the update handler
  (given Content-Type \<^verbatim>\<open>application/json\<close>) and the delete handler each return HTTP 404
  with the empty JSON object as body, and the table is unchanged.
\<close>

theorem not_found_404:
  assumes "\<forall>p\<in>set st. pid p \<noteq> Some i"
  shows "get_products M st i = (Inr (reply (JObj []) 404), st)
         \<and> (headers req ''Content-Type'' = Some ''application/json'' \<longrightarrow>
              update_products M st i req = (Inr (reply (JObj []) 404), st))
         \<and> delete_products M st i = (Inr (reply (JObj []) 404), st)"
proof -
  from assms have "find_product st i = None"
    by (simp add: find_product_None_iff)
  then show ?thesis
    by (simp add: get_products_def update_products_def delete_products_def
          check_content_type_def HTTP_404_NOT_FOUND_def)
qed

theorem not_found_404_witness:
  "pid hat \<noteq> Some 22 \<and> pid pie \<noteq> Some 22 \<and> pid old_hat \<noteq> Some 22
   \<and> headers (json_request cap_payload) ''Content-Type'' = Some ''application/json''
   \<and> get_products sample_models sample_store 22 = (Inr (reply (JObj []) 404), sample_store)
   \<and> update_products sample_models sample_store 22 (json_request cap_payload)
       = (Inr (reply (JObj []) 404), sample_store)
   \<and> delete_products sample_models sample_store 22 = (Inr (reply (JObj []) 404), sample_store)"
proof -
  have a: "\<forall>p\<in>set sample_store. pid p \<noteq> Some 22"
    by (simp add: sample_defs)
  have h: "headers (json_request cap_payload) ''Content-Type'' = Some ''application/json''"
    by (simp add: json_request_def)
  from not_found_404 [OF a, of sample_models "json_request cap_payload"] h show ?thesis
    by (simp add: hat_def pie_def old_hat_def)
qed

end
